theory Spec2Isabelle
  imports Complex_Main
begin

section \<open>Values of the program\<close>

text \<open>
  The miner of \<^verbatim>\<open>bot.py\<close> keeps, per wallet, the value \<^verbatim>\<open>self.data\<close>: a
  dictionary with the four keys \<^verbatim>\<open>start_time\<close>, \<^verbatim>\<open>total_earned\<close>,
  \<^verbatim>\<open>paid_out\<close> and \<^verbatim>\<open>referral_bonus\<close>, until \<^verbatim>\<open>load\<close> replaces it with
  whatever \<^verbatim>\<open>json.load\<close> returns. That can be a value of another shape: an object
  with none of the four keys, such as \<^verbatim>\<open>{}\<close>, or a value that is no object,
  such as \<^verbatim>\<open>[]\<close>, \<^verbatim>\<open>5\<close> or \<^verbatim>\<open>null\<close>; the string is the text of the
  document. Objects that have some of the four keys, or values of another type under
  them, are outside the model.
\<close>

datatype other_json = Object_without_keys string | Not_an_object string

text \<open>
  The value is a record: \<^verbatim>\<open>start_time\<close> starts as \<^verbatim>\<open>None\<close>, so it is an
  option. When \<open>other_json\<close> is \<open>Some v\<close> the value is \<open>v\<close> and is no session
  dictionary: the four fields then mean nothing and are never read. Python floats
  are taken as real numbers: rounding is outside the model.
\<close>

record session_data =
  start_time :: "real option"
  total_earned :: real
  paid_out :: real
  referral_bonus :: real
  other_json :: "other_json option"

text \<open>The exceptions that leave a method of the program uncaught.\<close>

datatype py_error =
  TypeError \<comment> \<open>arithmetic on \<^verbatim>\<open>None\<close>, or a subscript on a value that is no object\<close>
  | KeyError \<comment> \<open>a subscript on an object without the key\<close>
  | TransportError \<comment> \<open>an exception of the HTTP call that is no \<^verbatim>\<open>RequestException\<close>\<close>

text \<open>What \<^verbatim>\<open>self.session.data[key]\<close> raises on a value of another shape.\<close>

fun subscript_error :: "other_json \<Rightarrow> py_error" where
  "subscript_error (Object_without_keys v) = KeyError"
| "subscript_error (Not_an_object v) = TypeError"

text \<open>
  What the remote service answers. A \<^verbatim>\<open>requests.Response\<close> is truthy exactly when
  its status is below 400 (\<^verbatim>\<open>Response.__bool__\<close> is \<^verbatim>\<open>Response.ok\<close>). Of the body
  only what the program reads is kept: the truth value of \<^verbatim>\<open>isRegistered\<close> and
  \<^verbatim>\<open>userData.referralBonus\<close>, \<^verbatim>\<open>None\<close> where the key is absent.
\<close>

record response =
  ok :: bool
  isRegistered :: bool
  referralBonus :: "real option"

text \<open>The body of a balance push: the dictionary \<^verbatim>\<open>new_balance\<close>.\<close>

record balance =
  total :: real
  pending :: real
  paid :: real

text \<open>One invocation of a wrapped HTTP call ends in one of four ways.\<close>

datatype 'a outcome =
  Returns 'a
  | NetworkError \<comment> \<open>\<^verbatim>\<open>requests.ConnectionError\<close> or \<^verbatim>\<open>requests.Timeout\<close>\<close>
  | RequestFailed \<comment> \<open>any other \<^verbatim>\<open>requests.RequestException\<close>\<close>
  | Raises \<comment> \<open>any other exception: the wrapper does not catch it\<close>

text \<open>
  What the program prints, one constructor per \<^verbatim>\<open>print\<close> of the methods
  modelled here.
\<close>

datatype message =
  Network_error_retry nat \<comment> \<open>\<^verbatim>\<open>Network error: ..., retry k/5\<close>\<close>
  | Request_failed \<comment> \<open>\<^verbatim>\<open>Request failed: ...\<close>\<close>
  | Error_loading_session
  | Wallet_not_registered nat
  | Mining_status string int real real real
      \<comment> \<open>the table: wallet (printed shortened), uptime in seconds, total earned,
         pending, referral bonus\<close>
  | Miner_stopped nat real \<comment> \<open>\<^verbatim>\<open>Miner k stopped. Total paid: ...\<close>\<close>
  | Initializing nat

text \<open>
  A session file holds either a JSON document, kept as the value \<^verbatim>\<open>json.load\<close>
  returns from it (a session dictionary or a value of another shape), or bytes on
  which \<^verbatim>\<open>json.load\<close> raises; the empty file is \<open>Not_json []\<close>.
\<close>

datatype file_content = Json_doc session_data | Not_json string

datatype fs_op =
  Open_w string \<comment> \<open>\<^verbatim>\<open>open(name, 'w')\<close>: creates or truncates the file\<close>
  | Dump string session_data \<comment> \<open>\<^verbatim>\<open>json.dump\<close> and the flush at the end of \<^verbatim>\<open>with\<close>\<close>

datatype event =
  Print message
  | Get_check_registration string
  | Post_update_balance string balance
  | Sleep nat
  | File fs_op

text \<open>The world outside the objects: the files, and the trace of what was done.\<close>

record world =
  files :: "string \<rightharpoonup> file_content"
  trace :: "event list"

definition emit :: "event \<Rightarrow> world \<Rightarrow> world" where
  "emit e w = w\<lparr>trace := trace w @ [e]\<rparr>"

section \<open>APIClient\<close>

text \<open>
  \<^verbatim>\<open>handle_errors\<close>: the loop \<^verbatim>\<open>for attempt in range(5)\<close> of the wrapper. \<open>func k\<close>
  is what the \<open>k\<close>-th invocation of the wrapped function does, and \<open>req\<close> the request
  it sends. The result is \<^verbatim>\<open>None\<close> after the loop and after \<^verbatim>\<open>break\<close>.
\<close>

fun wrapper :: "nat list \<Rightarrow> (nat \<Rightarrow> 'a outcome) \<Rightarrow> event \<Rightarrow> world \<Rightarrow> (py_error + 'a option) \<times> world" where
  "wrapper [] func req w = (Inr None, w)"
| "wrapper (attempt # rest) func req w =
     (case func attempt of
        Returns r \<Rightarrow> (Inr (Some r), emit req w)
      | NetworkError \<Rightarrow>
          wrapper rest func req
            (emit (Sleep (2 ^ attempt)) (emit (Print (Network_error_retry (attempt + 1))) (emit req w)))
      | RequestFailed \<Rightarrow> (Inr None, emit (Print Request_failed) (emit req w))
      | Raises \<Rightarrow> (Inl TransportError, emit req w))"

definition handle_errors :: "(nat \<Rightarrow> 'a outcome) \<Rightarrow> event \<Rightarrow> world \<Rightarrow> (py_error + 'a option) \<times> world" where
  "handle_errors func req w = wrapper [0..<5] func req w"

definition check_registration :: "(nat \<Rightarrow> response outcome) \<Rightarrow> string \<Rightarrow> world \<Rightarrow> (py_error + response option) \<times> world" where
  "check_registration net address w = handle_errors net (Get_check_registration address) w"

definition update_balance :: "(nat \<Rightarrow> response outcome) \<Rightarrow> string \<Rightarrow> balance \<Rightarrow> world \<Rightarrow> (py_error + response option) \<times> world" where
  "update_balance net address earnings_data w = handle_errors net (Post_update_balance address earnings_data) w"

text \<open>The truth value Python gives the result of a wrapped call.\<close>

fun truthy :: "response option \<Rightarrow> bool" where
  "truthy None = False"
| "truthy (Some r) = ok r"

section \<open>MiningSession\<close>

record mining_session =
  wallet :: string
  file_name :: string
  data :: session_data

definition MiningSession :: "string \<Rightarrow> mining_session" where
  "MiningSession wallet_address =
     \<lparr>wallet = wallet_address,
      file_name = wallet_address @ ''_mining.dat'',
      data = \<lparr>start_time = None, total_earned = 0, paid_out = 0, referral_bonus = 0,
              other_json = None\<rparr>\<rparr>"

definition exists_file :: "mining_session \<Rightarrow> world \<Rightarrow> bool" where
  "exists_file s w = (case files w (file_name s) of None \<Rightarrow> False | Some c \<Rightarrow> True)"

text \<open>
  \<^verbatim>\<open>load\<close>: \<^verbatim>\<open>open\<close> raises on a missing file and \<^verbatim>\<open>json.load\<close> on content
  that is no JSON; \<^verbatim>\<open>except Exception\<close> catches both, prints and returns
  \<^verbatim>\<open>False\<close>. Whatever parses is assigned to \<^verbatim>\<open>self.data\<close>, of any shape, and
  the result is \<^verbatim>\<open>True\<close>.
\<close>

definition load :: "mining_session \<Rightarrow> world \<Rightarrow> bool \<times> mining_session \<times> world" where
  "load s w =
     (case files w (file_name s) of
        None \<Rightarrow> (False, s, emit (Print Error_loading_session) w)
      | Some (Not_json b) \<Rightarrow> (False, s, emit (Print Error_loading_session) w)
      | Some (Json_doc d) \<Rightarrow> (True, s\<lparr>data := d\<rparr>, w))"

text \<open>
  \<^verbatim>\<open>save\<close> opens the session file itself for writing, which truncates it, and dumps
  the dictionary into it. \<open>save_upto k\<close> is a save interrupted after \<open>k\<close> of its steps.
\<close>

fun fs_step :: "world \<Rightarrow> fs_op \<Rightarrow> world" where
  "fs_step w (Open_w name) = emit (File (Open_w name)) (w\<lparr>files := (files w)(name \<mapsto> Not_json [])\<rparr>)"
| "fs_step w (Dump name d) = emit (File (Dump name d)) (w\<lparr>files := (files w)(name \<mapsto> Json_doc d)\<rparr>)"

definition save_steps :: "mining_session \<Rightarrow> fs_op list" where
  "save_steps s = [Open_w (file_name s), Dump (file_name s) (data s)]"

definition save_upto :: "nat \<Rightarrow> mining_session \<Rightarrow> world \<Rightarrow> world" where
  "save_upto k s w = foldl fs_step w (take k (save_steps s))"

definition save :: "mining_session \<Rightarrow> world \<Rightarrow> world" where
  "save s w = foldl fs_step w (save_steps s)"

section \<open>CryptoMiner\<close>

record crypto_miner =
  miner_id :: nat
  miner_wallet :: string
  session :: mining_session
  active :: bool
  miner_start_time :: "real option"

definition BASE_HASHRATE :: real where
  "BASE_HASHRATE = 75.5"

text \<open>\<^verbatim>\<open>__init__\<close>: the result of \<^verbatim>\<open>load\<close> is not looked at.\<close>

definition CryptoMiner :: "string \<Rightarrow> nat \<Rightarrow> world \<Rightarrow> crypto_miner \<times> world" where
  "CryptoMiner wallet_address mid w =
     (let s = MiningSession wallet_address;
          m = \<lparr>miner_id = mid, miner_wallet = wallet_address, session = s,
               active = False, miner_start_time = None\<rparr>
      in if exists_file s w
         then (case load s w of (r, s', w') \<Rightarrow> (m\<lparr>session := s'\<rparr>, w'))
         else (m, w))"

text \<open>
  \<^verbatim>\<open>_calculate_production\<close>; \<open>now\<close> is what \<^verbatim>\<open>time.time()\<close> returns. The
  subscript \<^verbatim>\<open>data['start_time']\<close> raises on a value of another shape, and
  subtracting \<^verbatim>\<open>None\<close> raises \<^verbatim>\<open>TypeError\<close>.
\<close>

definition calculate_production :: "real \<Rightarrow> session_data \<Rightarrow> py_error + real" where
  "calculate_production now d =
     (case other_json d of
        Some v \<Rightarrow> Inl (subscript_error v)
      | None \<Rightarrow>
          (case start_time d of
             None \<Rightarrow> Inl TypeError
           | Some t0 \<Rightarrow>
               (let operational_time = now - t0;
                    base_production = BASE_HASHRATE * operational_time * 0.0001
                in Inr (base_production * (1 + referral_bonus d)))))"

text \<open>\<^verbatim>\<open>int(x)\<close> on a float rounds towards zero.\<close>

definition py_int :: "real \<Rightarrow> int" where
  "py_int x = (if x < 0 then \<lceil>x\<rceil> else \<lfloor>x\<rfloor>)"

text \<open>\<^verbatim>\<open>display_stats\<close>; both clock reads are taken at the instant \<open>now\<close>.\<close>

definition display_stats :: "real \<Rightarrow> crypto_miner \<Rightarrow> world \<Rightarrow> (py_error + unit) \<times> world" where
  "display_stats now m w =
     (case miner_start_time m of
        None \<Rightarrow> (Inl TypeError, w)
      | Some t0 \<Rightarrow>
          (case calculate_production now (data (session m)) of
             Inl e \<Rightarrow> (Inl e, w)
           | Inr p \<Rightarrow>
               (Inr (),
                emit (Print (Mining_status (miner_wallet m) (py_int (now - t0))
                  (total_earned (data (session m))) p (referral_bonus (data (session m))))) w)))"

text \<open>\<^verbatim>\<open>not x\<close> on a start time: \<^verbatim>\<open>None\<close> and \<^verbatim>\<open>0.0\<close> are falsy.\<close>

fun unset :: "real option \<Rightarrow> bool" where
  "unset None = True"
| "unset (Some t) = (t = 0)"

text \<open>
  \<^verbatim>\<open>initialize_miner\<close>; \<open>now\<close> is the clock read after the registration check.
  The subscript \<^verbatim>\<open>data['start_time']\<close> after a successful check raises on a
  value of another shape.
\<close>

definition initialize_miner :: "(nat \<Rightarrow> response outcome) \<Rightarrow> real \<Rightarrow> crypto_miner \<Rightarrow> world \<Rightarrow> (py_error + bool) \<times> crypto_miner \<times> world" where
  "initialize_miner net now m w =
     (case check_registration net (miner_wallet m) w of
        (Inl e, w') \<Rightarrow> (Inl e, m, w')
      | (Inr None, w') \<Rightarrow> (Inr False, m, emit (Print (Wallet_not_registered (miner_id m))) w')
      | (Inr (Some r), w') \<Rightarrow>
          (if ok r \<and> isRegistered r then
             (case other_json (data (session m)) of
                Some v \<Rightarrow> (Inl (subscript_error v), m, w')
              | None \<Rightarrow>
                  (let d = data (session m);
                       d' = (if unset (start_time d)
                             then d\<lparr>start_time := Some now,
                                    referral_bonus := (case referralBonus r of None \<Rightarrow> 0 | Some b \<Rightarrow> b)\<rparr>
                             else d)
                   in (Inr True,
                       m\<lparr>session := (session m)\<lparr>data := d'\<rparr>,
                         miner_start_time := start_time d', active := True\<rparr>,
                       w')))
           else (Inr False, m, emit (Print (Wallet_not_registered (miner_id m))) w')))"

text \<open>
  \<^verbatim>\<open>_update_server_balance\<close>; \<open>now\<close> is the clock read of the production, \<open>net\<close>
  what the service does at each attempt of the push.
\<close>

definition new_balance :: "bool \<Rightarrow> session_data \<Rightarrow> real \<Rightarrow> balance" where
  "new_balance final d current_production =
     \<lparr>total = total_earned d + current_production,
      pending = (if final then 0 else current_production),
      paid = paid_out d + (if final then current_production else 0)\<rparr>"

definition update_server_balance :: "bool \<Rightarrow> real \<Rightarrow> (nat \<Rightarrow> response outcome) \<Rightarrow> crypto_miner \<Rightarrow> world \<Rightarrow> (py_error + bool) \<times> crypto_miner \<times> world" where
  "update_server_balance final now net m w =
     (case calculate_production now (data (session m)) of
        Inl e \<Rightarrow> (Inl e, m, w)
      | Inr current_production \<Rightarrow>
          (let nb = new_balance final (data (session m)) current_production
           in case update_balance net (miner_wallet m) nb w of
                (Inl e, w') \<Rightarrow> (Inl e, m, w')
              | (Inr r, w') \<Rightarrow>
                  (if truthy r then
                     (let d1 = (if final then (data (session m))\<lparr>paid_out := paid nb\<rparr>
                                else data (session m));
                          d2 = d1\<lparr>total_earned := total nb\<rparr>;
                          m' = m\<lparr>session := (session m)\<lparr>data := d2\<rparr>\<rparr>
                      in (Inr True, m', save (session m') w'))
                   else (Inr False, m, w'))))"

text \<open>
  \<^verbatim>\<open>shutdown\<close>: the result of the final reconciliation is not looked at, and the
  same line is printed whatever it was.
\<close>

definition shutdown :: "real \<Rightarrow> (nat \<Rightarrow> response outcome) \<Rightarrow> crypto_miner \<Rightarrow> world \<Rightarrow> (py_error + unit) \<times> crypto_miner \<times> world" where
  "shutdown now net m w =
     (case update_server_balance True now net (m\<lparr>active := False\<rparr>) w of
        (Inl e, m', w') \<Rightarrow> (Inl e, m', w')
      | (Inr r, m', w') \<Rightarrow>
          (Inr (), m', emit (Print (Miner_stopped (miner_id m') (paid_out (data (session m'))))) w'))"

text \<open>
  \<^verbatim>\<open>run_mining_cycle\<close> runs until it is interrupted. What reaches it from outside
  is a list of events: a tick is the end of a mining interval, with the clock read of
  the production, the answers of the service and the clock read of the statistics; an
  interrupt is \<^verbatim>\<open>KeyboardInterrupt\<close> between two ticks, with the clock read and the
  answers for the final push. The empty list is a run that is still going.
\<close>

datatype cycle_event =
  Tick real "nat \<Rightarrow> response outcome" real
  | Interrupt real "nat \<Rightarrow> response outcome"

fun run_mining_cycle :: "cycle_event list \<Rightarrow> crypto_miner \<Rightarrow> world \<Rightarrow> (py_error + unit) \<times> crypto_miner \<times> world" where
  "run_mining_cycle [] m w = (Inr (), m, w)"
| "run_mining_cycle (Tick now net now_stats # evs) m w =
     (if active m then
        (case update_server_balance False now net m w of
           (Inl e, m', w') \<Rightarrow> (Inl e, m', w')
         | (Inr True, m', w') \<Rightarrow>
             (case display_stats now_stats m' w' of
                (Inl e, w'') \<Rightarrow> (Inl e, m', w'')
              | (Inr u, w'') \<Rightarrow> run_mining_cycle evs m' w'')
         | (Inr False, m', w') \<Rightarrow> run_mining_cycle evs m' w')
      else (Inr (), m, w))"
| "run_mining_cycle (Interrupt now net # evs) m w =
     (if active m then shutdown now net m w else (Inr (), m, w))"

section \<open>MiningSupervisor\<close>

text \<open>
  \<^verbatim>\<open>start_operation\<close> up to the installation of the signal handler; \<open>addresses\<close> is
  what \<^verbatim>\<open>load_addresses\<close> returned. The miners are built in the order of the list, with
  the identifiers 1, 2, ...; an object is told from the others by its identifier.
\<close>

fun build_miners :: "nat \<Rightarrow> string list \<Rightarrow> world \<Rightarrow> crypto_miner list \<times> world" where
  "build_miners i [] w = ([], w)"
| "build_miners i (addr # rest) w =
     (case CryptoMiner addr (i + 1) w of
        (m, w') \<Rightarrow> (case build_miners (i + 1) rest w' of (ms, w'') \<Rightarrow> (m # ms, w'')))"

text \<open>\<^verbatim>\<open>list.remove\<close> takes out the first occurrence.\<close>

fun remove_miner :: "nat \<Rightarrow> crypto_miner list \<Rightarrow> crypto_miner list" where
  "remove_miner k [] = []"
| "remove_miner k (x # xs) = (if miner_id x = k then xs else x # remove_miner k xs)"

text \<open>
  The loop \<^verbatim>\<open>for miner in self.miners\<close>. Python's list iterator holds an index \<open>i\<close>
  into the list as it is now: it stops when \<open>i\<close> reaches the length, and otherwise
  yields element \<open>i\<close> and moves on to \<open>i + 1\<close>, whatever the body did to the list.
  \<open>net k\<close> are the answers of the service to miner \<open>k\<close>, \<open>clock k\<close> its clock read.
\<close>

function init_loop :: "nat \<Rightarrow> (nat \<Rightarrow> nat \<Rightarrow> response outcome) \<Rightarrow> (nat \<Rightarrow> real) \<Rightarrow> crypto_miner list \<Rightarrow> world \<Rightarrow> (py_error + unit) \<times> crypto_miner list \<times> world" where
  "init_loop i net clock ms w =
     (if i < length ms then
        (case initialize_miner (net (miner_id (ms ! i))) (clock (miner_id (ms ! i))) (ms ! i) w of
           (Inl e, m', w') \<Rightarrow> (Inl e, ms[i := m'], w')
         | (Inr True, m', w') \<Rightarrow>
             (case display_stats (clock (miner_id m')) m' w' of
                (Inl e, w'') \<Rightarrow> (Inl e, ms[i := m'], w'')
              | (Inr u, w'') \<Rightarrow> init_loop (Suc i) net clock (ms[i := m']) w'')
         | (Inr False, m', w') \<Rightarrow>
             init_loop (Suc i) net clock (remove_miner (miner_id m') (ms[i := m'])) w')
      else (Inr (), ms, w))"
  by pat_completeness auto
termination
proof (relation "measure (\<lambda>(i, net, clock, ms, w). length ms - i)")
  show "wf (measure (\<lambda>(i, net, clock, ms, w). length ms - i))"
    by simp
next
  fix i :: nat and ms :: "crypto_miner list" and m' :: crypto_miner
    and net :: "nat \<Rightarrow> nat \<Rightarrow> response outcome" and clock :: "nat \<Rightarrow> real" and w'' :: world
  assume "i < length ms"
  then show "((Suc i, net, clock, ms[i := m'], w''), (i, net, clock, ms, w)) \<in> measure (\<lambda>(i, net, clock, ms, w). length ms - i)" for w
    by simp
next
  fix i :: nat and ms :: "crypto_miner list" and m' :: crypto_miner
    and net :: "nat \<Rightarrow> nat \<Rightarrow> response outcome" and clock :: "nat \<Rightarrow> real" and w' :: world
  assume lt: "i < length ms"
  have shorter: "length (remove_miner k xs) \<le> length xs" for k and xs :: "crypto_miner list"
    by (induction xs) auto
  have "length (remove_miner (miner_id m') (ms[i := m'])) \<le> length ms"
    using shorter [of "miner_id m'" "ms[i := m']"] by simp
  with lt show "((Suc i, net, clock, remove_miner (miner_id m') (ms[i := m']), w'), (i, net, clock, ms, w)) \<in> measure (\<lambda>(i, net, clock, ms, w). length ms - i)" for w
    by simp
qed

definition start_operation :: "string list \<Rightarrow> (nat \<Rightarrow> nat \<Rightarrow> response outcome) \<Rightarrow> (nat \<Rightarrow> real) \<Rightarrow> world \<Rightarrow> (py_error + unit) \<times> crypto_miner list \<times> world" where
  "start_operation addresses net clock w =
     (if addresses = [] then (Inr (), [], w)
      else
        (case build_miners 0 addresses (emit (Print (Initializing (length addresses))) w) of
           (ms, w') \<Rightarrow> init_loop 0 net clock ms w'))"

section \<open>Observations on traces\<close>

text \<open>
  What a call added to the trace, and what can be read off it: the requests sent, the
  seconds slept, the lines printed. \<open>retry_events\<close> is the trace of one attempt
  that ended in a network error, \<open>last_events\<close> that of the attempt that ended
  the loop, \<open>last_result\<close> what the wrapper returns then.
\<close>

fun is_request :: "event \<Rightarrow> bool" where
  "is_request (Get_check_registration a) = True"
| "is_request (Post_update_balance a b) = True"
| "is_request e = False"

fun sleep_of :: "event \<Rightarrow> nat list" where
  "sleep_of (Sleep n) = [n]"
| "sleep_of e = []"

definition slept :: "event list \<Rightarrow> nat list" where
  "slept evs = concat (map sleep_of evs)"

definition added :: "world \<Rightarrow> world \<Rightarrow> event list" where
  "added w w' = drop (length (trace w)) (trace w')"

definition retry_events :: "event \<Rightarrow> nat \<Rightarrow> event list" where
  "retry_events req a = [req, Print (Network_error_retry (a + 1)), Sleep (2 ^ a)]"

fun last_events :: "event \<Rightarrow> 'a outcome \<Rightarrow> event list" where
  "last_events req (Returns r) = [req]"
| "last_events req NetworkError = []"
| "last_events req RequestFailed = [req, Print Request_failed]"
| "last_events req Raises = [req]"

fun last_result :: "'a outcome \<Rightarrow> py_error + 'a option" where
  "last_result (Returns r) = Inr (Some r)"
| "last_result NetworkError = Inr None"
| "last_result RequestFailed = Inr None"
| "last_result Raises = Inl TransportError"

section \<open>Concrete inputs\<close>

text \<open>
  An empty world, three answers of the service (accepted, HTTP error status, not
  registered) and an initialised miner of wallet \<open>0xA\<close> that started at instant 0
  with no bonus and the given totals.
\<close>

definition world0 :: world where
  "world0 = \<lparr>files = Map.empty, trace = []\<rparr>"

definition accepted :: response where
  "accepted = \<lparr>ok = True, isRegistered = True, referralBonus = None\<rparr>"

definition server_error :: response where
  "server_error = \<lparr>ok = False, isRegistered = False, referralBonus = None\<rparr>"

definition not_registered :: response where
  "not_registered = \<lparr>ok = True, isRegistered = False, referralBonus = None\<rparr>"

definition miner_of :: "real \<Rightarrow> real \<Rightarrow> crypto_miner" where
  "miner_of earned settled =
     \<lparr>miner_id = 1, miner_wallet = ''0xA'',
      session = \<lparr>wallet = ''0xA'', file_name = ''0xA_mining.dat'',
                 data = \<lparr>start_time = Some 0, total_earned = earned, paid_out = settled,
                         referral_bonus = 0, other_json = None\<rparr>\<rparr>,
      active = True, miner_start_time = Some 0\<rparr>"

fun print_of :: "event \<Rightarrow> message list" where
  "print_of (Print msg) = [msg]"
| "print_of e = []"

definition printed :: "world \<Rightarrow> message list" where
  "printed w = concat (map print_of (trace w))"

text \<open>A world whose only file is the session file of wallet \<open>0xA\<close>.\<close>

definition world_of :: "file_content \<Rightarrow> world" where
  "world_of c = \<lparr>files = [''0xA_mining.dat'' \<mapsto> c], trace = []\<rparr>"


text \<open>A service that refuses the first miner and accepts every other one.\<close>

definition first_refused :: "nat \<Rightarrow> nat \<Rightarrow> response outcome" where
  "first_refused k attempt = (if k = 1 then Returns not_registered else Returns accepted)"

section \<open>The retry wrapper\<close>

lemma wrapper_run:
  assumes "n \<le> length xs" and "\<forall>k<n. func (xs ! k) = NetworkError"
    and "n < length xs \<longrightarrow> func (xs ! n) \<noteq> NetworkError"
  shows "wrapper xs func req w =
    ((if n < length xs then last_result (func (xs ! n)) else Inr None),
     w\<lparr>trace := trace w @ concat (map (retry_events req) (take n xs))
        @ (if n < length xs then last_events req (func (xs ! n)) else [])\<rparr>)"
  using assms
proof (induction xs arbitrary: n w)
  case Nil
  then show ?case by simp
next
  case (Cons a xs)
  show ?case
  proof (cases n)
    case 0
    with Cons.prems show ?thesis
      by (cases "func a") (simp_all add: emit_def)
  next
    case (Suc j)
    with Cons.prems have a: "func a = NetworkError" by auto
    from Suc Cons.prems have j: "j \<le> length xs" "\<forall>k<j. func (xs ! k) = NetworkError"
      "j < length xs \<longrightarrow> func (xs ! j) \<noteq> NetworkError" by auto
    show ?thesis
      using Cons.IH [OF j] a Suc by (simp add: emit_def retry_events_def)
  qed
qed


lemma slept_retry_events:
  "is_request req \<Longrightarrow> slept (concat (map (retry_events req) xs)) = map (\<lambda>a. 2 ^ a) xs"
  by (induction xs) (cases req; simp add: slept_def retry_events_def)+

lemma count_retry_events:
  "is_request req \<Longrightarrow> count_list (concat (map (retry_events req) xs)) req = length xs"
  by (induction xs) (cases req; simp add: retry_events_def)+

lemma slept_last_events: "is_request req \<Longrightarrow> slept (last_events req out) = []"
  by (cases out; cases req; simp add: slept_def)

lemma count_last_events:
  "is_request req \<Longrightarrow> out \<noteq> NetworkError \<Longrightarrow> count_list (last_events req out) req = 1"
  by (cases out; cases req; simp)

lemma slept_append: "slept (xs @ ys) = slept xs @ slept ys"
  by (simp add: slept_def)

lemma slept_Nil: "slept [] = []"
  by (simp add: slept_def)

lemma added_trace: "added w (w\<lparr>trace := trace w @ evs\<rparr>) = evs"
  by (simp add: added_def)

lemma handle_errors_run:
  assumes "n \<le> 5" and "\<forall>k<n. func k = NetworkError" and "n < 5 \<longrightarrow> func n \<noteq> NetworkError"
  shows "handle_errors func req w =
    ((if n < 5 then last_result (func n) else Inr None),
     w\<lparr>trace := trace w @ concat (map (retry_events req) [0..<n])
        @ (if n < 5 then last_events req (func n) else [])\<rparr>)"
proof -
  have t: "take n [0..<5] = [0..<n]"
    using assms(1) by (simp add: take_upt)
  have "wrapper [0..<5] func req w =
    ((if n < length [0..<5] then last_result (func ([0..<5] ! n)) else Inr None),
     w\<lparr>trace := trace w @ concat (map (retry_events req) (take n [0..<5]))
        @ (if n < length [0..<5] then last_events req (func ([0..<5] ! n)) else [])\<rparr>)"
    by (rule wrapper_run) (use assms in auto)
  then show ?thesis
    unfolding handle_errors_def t by (cases "n < 5") simp_all
qed

text \<open>
  C10. Every remote call runs under \<open>handle_errors\<close>. Let the first \<open>n \<le> 5\<close>
  attempts end in a network error and, when \<open>n < 5\<close>, attempt \<open>n\<close> end in
  another way. Then the request is sent \<open>min (n + 1) 5\<close> times, so at most five
  times; after the failed attempt \<open>k\<close> the wrapper sleeps \<open>2 ^ k\<close> seconds, so
  1, 2, 4, 8, 16 when all five fail; and no file is touched. When all five attempts
  failed, or attempt \<open>n\<close> was a request failure that is no network error (no attempt
  follows it), the call returns \<open>None\<close>; both callers treat that the same way in
  both cases: \<open>initialize_miner\<close> returns \<open>False\<close> and leaves the miner as it
  was, \<open>update_server_balance\<close> returns \<open>False\<close>, leaves the miner as it was
  and writes no file.
\<close>

theorem retry_policy:
  fixes net :: "nat \<Rightarrow> response outcome"
  assumes req: "is_request req"
    and n: "n \<le> 5" and lead: "\<forall>k<n. net k = NetworkError"
    and stop: "n < 5 \<longrightarrow> net n \<noteq> NetworkError"
  shows "count_list (added w (snd (handle_errors net req w))) req = min (n + 1) 5
    \<and> slept (added w (snd (handle_errors net req w))) = map (\<lambda>attempt. 2 ^ attempt) [0..<n]
    \<and> files (snd (handle_errors net req w)) = files w
    \<and> (n = 5 \<or> net n = RequestFailed \<longrightarrow>
         fst (handle_errors net req w) = Inr None
       \<and> fst (initialize_miner net now m w) = Inr False
       \<and> fst (snd (initialize_miner net now m w)) = m
       \<and> files (snd (snd (initialize_miner net now m w))) = files w
       \<and> (\<forall>p. calculate_production now (data (session m)) = Inr p \<longrightarrow>
            update_server_balance final now net m w =
              (Inr False, m,
               snd (update_balance net (miner_wallet m) (new_balance final (data (session m)) p) w))))"
proof -
  note run = handle_errors_run [OF n lead stop]
  have c: "count_list (added w (snd (handle_errors net req w))) req = min (n + 1) 5"
  proof (cases "n < 5")
    case True
    with stop have "net n \<noteq> NetworkError" by simp
    with True req show ?thesis
      by (simp add: run added_trace count_retry_events count_last_events)
  next
    case False
    with n have "n = 5" by simp
    with req show ?thesis
      by (simp add: run added_trace count_retry_events)
  qed
  have s: "slept (added w (snd (handle_errors net req w))) = map (\<lambda>attempt. 2 ^ attempt) [0..<n]"
    using req by (simp add: run added_trace slept_append slept_retry_events slept_last_events slept_Nil)
  have f: "files (snd (handle_errors net req w)) = files w"
    by (simp add: run)
  have none: "fst (handle_errors net req' w) = Inr None" if "n = 5 \<or> net n = RequestFailed" for req'
    using that handle_errors_run [OF n lead stop, of req' w] by auto
  have fl: "files (snd (handle_errors net req' w)) = files w" for req'
    using handle_errors_run [OF n lead stop, of req' w] by simp
  have callers: "fst (initialize_miner net now m w) = Inr False
       \<and> fst (snd (initialize_miner net now m w)) = m
       \<and> files (snd (snd (initialize_miner net now m w))) = files w
       \<and> (\<forall>p. calculate_production now (data (session m)) = Inr p \<longrightarrow>
            update_server_balance final now net m w =
              (Inr False, m,
               snd (update_balance net (miner_wallet m) (new_balance final (data (session m)) p) w)))"
    if h: "n = 5 \<or> net n = RequestFailed"
  proof -
    obtain w1 where i: "check_registration net (miner_wallet m) w = (Inr None, w1)"
      using none [OF h, of "Get_check_registration (miner_wallet m)"]
      by (cases "check_registration net (miner_wallet m) w") (simp add: check_registration_def)
    have fi: "files w1 = files w"
      using fl [of "Get_check_registration (miner_wallet m)"] i
      by (simp add: check_registration_def)
    have init: "initialize_miner net now m w =
        (Inr False, m, emit (Print (Wallet_not_registered (miner_id m))) w1)"
      by (simp add: initialize_miner_def i)
    have upd: "update_server_balance final now net m w =
        (Inr False, m,
         snd (update_balance net (miner_wallet m) (new_balance final (data (session m)) p) w))"
      if p: "calculate_production now (data (session m)) = Inr p" for p
    proof -
      obtain w2 where u: "update_balance net (miner_wallet m)
          (new_balance final (data (session m)) p) w = (Inr None, w2)"
        using none [OF h, of "Post_update_balance (miner_wallet m)
          (new_balance final (data (session m)) p)"]
        by (cases "update_balance net (miner_wallet m) (new_balance final (data (session m)) p) w")
          (simp add: update_balance_def)
      show ?thesis
        by (simp add: update_server_balance_def p u)
    qed
    show ?thesis
      using fi upd by (simp add: init emit_def)
  qed
  from c s f none callers show ?thesis by blast
qed

theorem retry_policy_witness:
  "is_request (Post_update_balance ''0xA'' (new_balance False (data (session (miner_of 0 0))) 0.755))
   \<and> count_list (added world0 (snd (handle_errors (\<lambda>k. NetworkError :: response outcome)
         (Post_update_balance ''0xA'' (new_balance False (data (session (miner_of 0 0))) 0.755)) world0)))
         (Post_update_balance ''0xA'' (new_balance False (data (session (miner_of 0 0))) 0.755)) = 5
   \<and> slept (added world0 (snd (handle_errors (\<lambda>k. NetworkError :: response outcome)
         (Post_update_balance ''0xA'' (new_balance False (data (session (miner_of 0 0))) 0.755)) world0)))
       = [1, 2, 4, 8, 16]
   \<and> fst (handle_errors (\<lambda>k. NetworkError :: response outcome)
         (Post_update_balance ''0xA'' (new_balance False (data (session (miner_of 0 0))) 0.755)) world0)
       = Inr None
   \<and> fst (update_server_balance False 100 (\<lambda>k. NetworkError) (miner_of 0 0) world0) = Inr False
   \<and> fst (snd (update_server_balance False 100 (\<lambda>k. NetworkError) (miner_of 0 0) world0)) = miner_of 0 0"
proof -
  let ?req = "Post_update_balance ''0xA'' (new_balance False (data (session (miner_of 0 0))) 0.755)"
  have p: "calculate_production 100 (data (session (miner_of 0 0))) = Inr 0.755"
    by (simp add: miner_of_def calculate_production_def BASE_HASHRATE_def)
  have u: "map (\<lambda>attempt. 2 ^ attempt) [0..<5] = [1, 2, 4, 8, 16::nat]"
    by (simp add: upt_rec)
  have h1: "is_request ?req" by simp
  have h2: "(5::nat) \<le> 5" by simp
  have h3: "\<forall>k<5::nat. (NetworkError :: response outcome) = NetworkError" by simp
  have h4: "(5::nat) < 5 \<longrightarrow> (NetworkError :: response outcome) \<noteq> NetworkError" by simp
  note r = retry_policy [where req = ?req and n = 5 and net = "\<lambda>k. NetworkError" and w = world0
      and now = 100 and m = "miner_of 0 0" and final = False, OF h1 h2 h3 h4]
  from r have "\<forall>q. calculate_production 100 (data (session (miner_of 0 0))) = Inr q \<longrightarrow>
      update_server_balance False 100 (\<lambda>k. NetworkError) (miner_of 0 0) world0 =
        (Inr False, miner_of 0 0,
         snd (update_balance (\<lambda>k. NetworkError) (miner_wallet (miner_of 0 0))
           (new_balance False (data (session (miner_of 0 0))) q) world0))"
    by simp
  with p have upd: "update_server_balance False 100 (\<lambda>k. NetworkError) (miner_of 0 0) world0 =
        (Inr False, miner_of 0 0,
         snd (update_balance (\<lambda>k. NetworkError) (miner_wallet (miner_of 0 0))
           (new_balance False (data (session (miner_of 0 0))) 0.755) world0))"
    by blast
  from r h1 show ?thesis
    by (simp add: u upd)
qed

section \<open>Production\<close>

text \<open>
  C3. For a session dictionary with start time \<open>t0 \<le> now\<close>, the production is
  \<open>75.5 * (now - t0) * 0.0001 * (1 + referral_bonus)\<close>; with no bonus and 100
  seconds elapsed it is 0.755. The result depends on the session data and the clock
  read only, and the function returns nothing else: it has no world in its type.
\<close>

theorem calculate_production_formula:
  assumes "other_json d = None" and "start_time d = Some t0" and "t0 \<le> now"
  shows "calculate_production now d = Inr (75.5 * (now - t0) * 0.0001 * (1 + referral_bonus d))
    \<and> (referral_bonus d = 0 \<and> now - t0 = 100 \<longrightarrow> calculate_production now d = Inr 0.755)"
  using assms by (simp add: calculate_production_def BASE_HASHRATE_def)

theorem calculate_production_formula_witness:
  "other_json (data (session (miner_of 0 0))) = None
   \<and> start_time (data (session (miner_of 0 0))) = Some 0 \<and> (0::real) \<le> 100
   \<and> calculate_production 100 (data (session (miner_of 0 0))) = Inr 0.755"
  using calculate_production_formula [of "data (session (miner_of 0 0))" 0 100]
  by (simp add: miner_of_def)

text \<open>
  C9 (amended). For a session dictionary with a start time \<open>t0\<close> and a bonus that is not
  negative, the production is returned without an error whatever the clock says. It
  is not negative when \<open>t0 \<le> now\<close>, it is negative when \<open>now < t0\<close>, and it
  is strictly increasing in \<open>now\<close>.
\<close>

theorem calculate_production_sign:
  assumes "other_json d = None" and "start_time d = Some t0" and "0 \<le> referral_bonus d"
  shows "(\<exists>p. calculate_production now d = Inr p
            \<and> (t0 \<le> now \<longrightarrow> 0 \<le> p) \<and> (now < t0 \<longrightarrow> p < 0)
            \<and> (\<forall>later p'. now < later \<and> calculate_production later d = Inr p' \<longrightarrow> p < p'))"
proof -
  have b: "0 < 1 + referral_bonus d" using assms(3) by simp
  have c: "0 < BASE_HASHRATE * 0.0001" by (simp add: BASE_HASHRATE_def)
  define f where "f = BASE_HASHRATE * 0.0001 * (1 + referral_bonus d)"
  have f: "0 < f" unfolding f_def using b c by simp
  have e: "calculate_production t d = Inr (f * (t - t0))" for t
    using assms(1,2) by (simp add: calculate_production_def f_def)
  have "0 \<le> f * (now - t0)" if "t0 \<le> now"
    using that f by simp
  moreover have "f * (now - t0) < 0" if "now < t0"
    using that f by (simp add: mult_less_0_iff)
  moreover have "f * (now - t0) < f * (later - t0)" if "now < later" for later
    using that f by simp
  ultimately show ?thesis
    by (auto simp: e)
qed

theorem calculate_production_sign_witness:
  "(\<exists>p. calculate_production 5 \<lparr>start_time = Some 10, total_earned = 0, paid_out = 0, referral_bonus = 0, other_json = None\<rparr> = Inr p \<and> p < 0)
   \<and> (\<exists>p. calculate_production 20 \<lparr>start_time = Some 10, total_earned = 0, paid_out = 0, referral_bonus = 0, other_json = None\<rparr> = Inr p \<and> 0 \<le> p)"
  using calculate_production_sign [of "\<lparr>start_time = Some 10, total_earned = 0, paid_out = 0, referral_bonus = 0, other_json = None\<rparr>" 10 5]
    calculate_production_sign [of "\<lparr>start_time = Some 10, total_earned = 0, paid_out = 0, referral_bonus = 0, other_json = None\<rparr>" 10 20]
  by auto

text \<open>
  The claim as written asks for an error when the clock is before the start time. The
  code has no such check: with start time 10 and the clock at 0 it returns -0.0755.
\<close>

theorem negative_production_counterexample:
  "calculate_production 0 \<lparr>start_time = Some 10, total_earned = 0, paid_out = 0, referral_bonus = 0, other_json = None\<rparr>
     = Inr (- 0.0755) \<and> (- 0.0755 :: real) < 0"
  by (simp add: calculate_production_def BASE_HASHRATE_def)

section \<open>Reconciliation\<close>

lemma save_files: "files (save s w) = (files w)(file_name s \<mapsto> Json_doc (data s))"
  by (simp add: save_def save_steps_def emit_def)

lemma update_server_balance_cases:
  assumes "calculate_production now (data (session m)) = Inr p"
    and "update_balance net (miner_wallet m) (new_balance final (data (session m)) p) w = (Inr r, w1)"
  shows "update_server_balance final now net m w =
    (if truthy r then
       (Inr True,
        m\<lparr>session := (session m)\<lparr>data := (data (session m))
            \<lparr>paid_out := paid_out (data (session m)) + (if final then p else 0),
             total_earned := total_earned (data (session m)) + p\<rparr>\<rparr>\<rparr>,
        save ((session m)\<lparr>data := (data (session m))
            \<lparr>paid_out := paid_out (data (session m)) + (if final then p else 0),
             total_earned := total_earned (data (session m)) + p\<rparr>\<rparr>) w1)
     else (Inr False, m, w1))"
  using assms by (simp add: update_server_balance_def new_balance_def Let_def)

lemma update_server_balance_error:
  assumes "calculate_production now (data (session m)) = Inr p"
    and "update_balance net (miner_wallet m) (new_balance final (data (session m)) p) w = (Inl e, w1)"
  shows "update_server_balance final now net m w = (Inl e, m, w1)"
  using assms by (simp add: update_server_balance_def)

text \<open>
  C8. If \<open>paid_out \<le> total_earned\<close> holds before a reconciliation, regular or
  final, whose pending amount is not negative, and the reconciliation commits (it
  returns \<open>True\<close>), then \<open>paid_out \<le> total_earned\<close> holds in the committed
  state, and that state is the document in the session file.
\<close>

theorem commit_keeps_total_above_paid:
  assumes inv: "paid_out (data (session m)) \<le> total_earned (data (session m))"
    and p: "calculate_production now (data (session m)) = Inr p" and nonneg: "0 \<le> p"
    and run: "update_server_balance final now net m w = (Inr True, m', w')"
  shows "paid_out (data (session m')) \<le> total_earned (data (session m'))
    \<and> files w' (file_name (session m')) = Some (Json_doc (data (session m')))"
proof -
  obtain res w1 where u: "update_balance net (miner_wallet m) (new_balance final (data (session m)) p) w = (res, w1)"
    by (cases "update_balance net (miner_wallet m) (new_balance final (data (session m)) p) w")
  show ?thesis
  proof (cases res)
    case (Inl e)
    with run update_server_balance_error [OF p u [unfolded Inl]] show ?thesis by simp
  next
    case (Inr r)
    with run update_server_balance_cases [OF p u [unfolded Inr]] inv nonneg show ?thesis
      by (auto simp: save_files split: if_splits)
  qed
qed

theorem commit_keeps_total_above_paid_witness:
  "paid_out (data (session (miner_of 10 2))) \<le> total_earned (data (session (miner_of 10 2)))
   \<and> calculate_production 100 (data (session (miner_of 10 2))) = Inr 0.755
   \<and> fst (update_server_balance False 100 (\<lambda>k. Returns accepted) (miner_of 10 2) world0) = Inr True
   \<and> paid_out (data (session (fst (snd (update_server_balance False 100 (\<lambda>k. Returns accepted) (miner_of 10 2) world0)))))
      \<le> total_earned (data (session (fst (snd (update_server_balance False 100 (\<lambda>k. Returns accepted) (miner_of 10 2) world0)))))"
proof -
  let ?u = "update_server_balance False 100 (\<lambda>k. Returns accepted) (miner_of 10 2) world0"
  have a: "paid_out (data (session (miner_of 10 2))) \<le> total_earned (data (session (miner_of 10 2)))"
    by (simp add: miner_of_def)
  have b: "calculate_production 100 (data (session (miner_of 10 2))) = Inr 0.755"
    by (simp add: miner_of_def calculate_production_def BASE_HASHRATE_def)
  have c: "fst ?u = Inr True"
    by (simp add: update_server_balance_def b update_balance_def handle_errors_def upt_rec accepted_def Let_def)
  have d: "?u = (Inr True, fst (snd ?u), snd (snd ?u))"
    using c by (simp add: prod_eq_iff)
  from commit_keeps_total_above_paid [OF a b _ d] a b c show ?thesis by simp
qed

lemma leading_upto:
  fixes net :: "nat \<Rightarrow> 'a outcome"
  shows "\<exists>n\<le>m. (\<forall>k<n. net k = NetworkError) \<and> (n < m \<longrightarrow> net n \<noteq> NetworkError)"
proof (induction m)
  case 0
  show ?case by simp
next
  case (Suc m)
  then obtain n where n: "n \<le> m" "\<forall>k<n. net k = NetworkError" "n < m \<longrightarrow> net n \<noteq> NetworkError"
    by blast
  show ?case
  proof (cases "n = m \<and> net m = NetworkError")
    case True
    with n(2) have "\<forall>k<Suc m. net k = NetworkError"
      by (simp add: less_Suc_eq)
    then show ?thesis
      by (intro exI [of _ "Suc m"]) simp
  next
    case False
    with n have "n \<le> Suc m" "\<forall>k<n. net k = NetworkError" "n < Suc m \<longrightarrow> net n \<noteq> NetworkError"
      by (auto simp: less_Suc_eq)
    then show ?thesis
      by (intro exI [of _ n]) simp
  qed
qed

lemma leading_network_errors:
  fixes net :: "nat \<Rightarrow> 'a outcome"
  obtains n where "n \<le> 5" and "\<forall>k<n. net k = NetworkError" and "n < 5 \<longrightarrow> net n \<noteq> NetworkError"
  using leading_upto [of 5 net] by blast

lemma requests_retry_events:
  "is_request req \<Longrightarrow> filter is_request (concat (map (retry_events req) xs)) = replicate (length xs) req"
  by (induction xs) (simp_all add: retry_events_def)

lemma requests_last_events:
  "is_request req \<Longrightarrow> out \<noteq> NetworkError \<Longrightarrow> filter is_request (last_events req out) = [req]"
  by (cases out) simp_all

lemma handle_errors_requests:
  fixes net :: "nat \<Rightarrow> 'a outcome"
  assumes req: "is_request req"
  shows "\<exists>k. 1 \<le> k \<and> k \<le> 5 \<and> filter is_request (added w (snd (handle_errors net req w))) = replicate k req"
proof -
  obtain n where n: "n \<le> 5" "\<forall>k<n. net k = NetworkError" "n < 5 \<longrightarrow> net n \<noteq> NetworkError"
    by (rule leading_network_errors)
  note run = handle_errors_run [OF n]
  show ?thesis
  proof (cases "n < 5")
    case True
    with n have "net n \<noteq> NetworkError" by simp
    with True req have "filter is_request (added w (snd (handle_errors net req w))) = replicate (Suc n) req"
      by (simp add: run added_trace requests_retry_events requests_last_events replicate_append_same)
    with True show ?thesis by (intro exI [of _ "Suc n"]) simp
  next
    case False
    with n have "n = 5" by simp
    with req have "filter is_request (added w (snd (handle_errors net req w))) = replicate 5 req"
      by (simp add: run added_trace requests_retry_events)
    then show ?thesis by (intro exI [of _ 5]) simp
  qed
qed

lemma handle_errors_files:
  fixes net :: "nat \<Rightarrow> 'a outcome"
  shows "files (snd (handle_errors net req w)) = files w"
proof -
  obtain n where n: "n \<le> 5" "\<forall>k<n. net k = NetworkError" "n < 5 \<longrightarrow> net n \<noteq> NetworkError"
    by (rule leading_network_errors)
  show ?thesis by (simp add: handle_errors_run [OF n])
qed


text \<open>
  C4. In a final reconciliation with pending amount \<open>p\<close>, every request sent is
  the push of \<open>total = total_earned + p\<close>, \<open>pending = 0\<close>,
  \<open>paid = paid_out + p\<close>. When the push returns a truthy response, the
  reconciliation returns \<open>True\<close>, \<open>total_earned\<close> and \<open>paid_out\<close> have both
  grown by \<open>p\<close>, nothing else of the session has changed and the session file
  holds the new state; when it does not, the reconciliation returns \<open>False\<close>, the
  miner is as it was and no file has changed. From 10 earned, 2 paid and 3 pending a
  successful final reconciliation gives 13 and 5 (the witness).
\<close>

theorem final_reconciliation:
  assumes p: "calculate_production now (data (session m)) = Inr p"
    and push: "update_balance net (miner_wallet m) (new_balance True (data (session m)) p) w = (Inr r, w1)"
  shows "new_balance True (data (session m)) p =
      \<lparr>total = total_earned (data (session m)) + p, pending = 0,
       paid = paid_out (data (session m)) + p\<rparr>
    \<and> (\<exists>k. 1 \<le> k \<and> k \<le> 5 \<and> filter is_request (added w w1) =
          replicate k (Post_update_balance (miner_wallet m)
            \<lparr>total = total_earned (data (session m)) + p, pending = 0,
             paid = paid_out (data (session m)) + p\<rparr>))
    \<and> (truthy r \<longrightarrow>
          (\<exists>m' w'. update_server_balance True now net m w = (Inr True, m', w')
             \<and> total_earned (data (session m')) = total_earned (data (session m)) + p
             \<and> paid_out (data (session m')) = paid_out (data (session m)) + p
             \<and> start_time (data (session m')) = start_time (data (session m))
             \<and> referral_bonus (data (session m')) = referral_bonus (data (session m))
             \<and> files w' (file_name (session m)) = Some (Json_doc (data (session m')))))
    \<and> (\<not> truthy r \<longrightarrow>
          update_server_balance True now net m w = (Inr False, m, w1) \<and> files w1 = files w)"
proof -
  have nb: "new_balance True (data (session m)) p =
      \<lparr>total = total_earned (data (session m)) + p, pending = 0,
       paid = paid_out (data (session m)) + p\<rparr>"
    by (simp add: new_balance_def)
  have w1: "w1 = snd (handle_errors net (Post_update_balance (miner_wallet m)
      (new_balance True (data (session m)) p)) w)"
    using push by (simp add: update_balance_def)
  have sent: "\<exists>k. 1 \<le> k \<and> k \<le> 5 \<and> filter is_request (added w w1) =
      replicate k (Post_update_balance (miner_wallet m) (new_balance True (data (session m)) p))"
    unfolding w1 by (rule handle_errors_requests) simp
  have fl: "files w1 = files w"
    unfolding w1 by (rule handle_errors_files)
  note u = update_server_balance_cases [OF p push]
  have yes: "\<exists>m' w'. update_server_balance True now net m w = (Inr True, m', w')
             \<and> total_earned (data (session m')) = total_earned (data (session m)) + p
             \<and> paid_out (data (session m')) = paid_out (data (session m)) + p
             \<and> start_time (data (session m')) = start_time (data (session m))
             \<and> referral_bonus (data (session m')) = referral_bonus (data (session m))
             \<and> files w' (file_name (session m)) = Some (Json_doc (data (session m')))"
    if "truthy r"
    using that by (simp add: u save_files)
  have no: "update_server_balance True now net m w = (Inr False, m, w1)" if "\<not> truthy r"
    using that by (simp add: u)
  from nb sent yes no fl show ?thesis
    by (simp only: nb) blast
qed

theorem final_reconciliation_witness:
  "calculate_production (60000 / 151) (data (session (miner_of 10 2))) = Inr 3
   \<and> (\<exists>m' w'. update_server_balance True (60000 / 151) (\<lambda>k. Returns accepted) (miner_of 10 2) world0
         = (Inr True, m', w')
       \<and> total_earned (data (session m')) = 13 \<and> paid_out (data (session m')) = 5
       \<and> files w' ''0xA_mining.dat'' = Some (Json_doc (data (session m'))))"
proof -
  have a: "calculate_production (60000 / 151) (data (session (miner_of 10 2))) = Inr 3"
    by (simp add: miner_of_def calculate_production_def BASE_HASHRATE_def)
  have b: "update_balance (\<lambda>k. Returns accepted) (miner_wallet (miner_of 10 2))
      (new_balance True (data (session (miner_of 10 2))) 3) world0
    = (Inr (Some accepted), emit (Post_update_balance (miner_wallet (miner_of 10 2))
        (new_balance True (data (session (miner_of 10 2))) 3)) world0)"
    by (simp add: update_balance_def handle_errors_def upt_rec)
  have c: "truthy (Some accepted)" by (simp add: accepted_def)
  note t = final_reconciliation [OF a b, THEN conjunct2, THEN conjunct2, THEN conjunct1, THEN mp, OF c]
  from t obtain m' w' where
    "update_server_balance True (60000 / 151) (\<lambda>k. Returns accepted) (miner_of 10 2) world0 = (Inr True, m', w')"
    "total_earned (data (session m')) = total_earned (data (session (miner_of 10 2))) + 3"
    "paid_out (data (session m')) = paid_out (data (session (miner_of 10 2))) + 3"
    "files w' (file_name (session (miner_of 10 2))) = Some (Json_doc (data (session m')))"
    by blast
  then have "update_server_balance True (60000 / 151) (\<lambda>k. Returns accepted) (miner_of 10 2) world0 = (Inr True, m', w')
       \<and> total_earned (data (session m')) = 13 \<and> paid_out (data (session m')) = 5
       \<and> files w' ''0xA_mining.dat'' = Some (Json_doc (data (session m')))"
    by (simp add: miner_of_def)
  with a show ?thesis by blast
qed

section \<open>Shutdown\<close>

lemma update_server_balance_miner_id:
  "miner_id (fst (snd (update_server_balance final now net m w))) = miner_id m"
  by (simp add: update_server_balance_def Let_def split: sum.splits prod.splits)

text \<open>
  C6 (amended). When the final reconciliation of a shutdown returns, with \<open>True\<close>
  or with \<open>False\<close>, the shutdown ends normally and prints one and the same line,
  \<open>Miner k stopped. Total paid\<close>, with the \<open>paid_out\<close> of the state the
  reconciliation left. After a failed push that is the \<open>paid_out\<close> from before.
\<close>

theorem shutdown_report:
  assumes "update_server_balance True now net (m\<lparr>active := False\<rparr>) w = (Inr r, m', w')"
  shows "shutdown now net m w =
      (Inr (), m', emit (Print (Miner_stopped (miner_id m) (paid_out (data (session m'))))) w')
    \<and> (r = False \<longrightarrow> paid_out (data (session m')) = paid_out (data (session m)))"
proof -
  have i: "miner_id m' = miner_id m"
    using update_server_balance_miner_id [of True now net "m\<lparr>active := False\<rparr>" w] assms by simp
  have "paid_out (data (session m')) = paid_out (data (session m))" if "r = False"
    using assms that
    by (auto simp: update_server_balance_def Let_def split: sum.splits prod.splits if_splits)
  then show ?thesis
    using assms i by (simp add: shutdown_def)
qed

theorem shutdown_report_witness:
  "shutdown (60000 / 151) (\<lambda>k. Returns server_error) (miner_of 13 5) world0 =
     (Inr (), (miner_of 13 5)\<lparr>active := False\<rparr>,
      emit (Print (Miner_stopped 1 5))
        (emit (Post_update_balance ''0xA'' \<lparr>total = 16, pending = 0, paid = 8\<rparr>) world0))"
proof -
  have u: "update_server_balance True (60000 / 151) (\<lambda>k. Returns server_error)
      ((miner_of 13 5)\<lparr>active := False\<rparr>) world0 =
    (Inr False, (miner_of 13 5)\<lparr>active := False\<rparr>,
     emit (Post_update_balance ''0xA'' \<lparr>total = 16, pending = 0, paid = 8\<rparr>) world0)"
    by (simp add: update_server_balance_def update_balance_def handle_errors_def
      upt_rec calculate_production_def BASE_HASHRATE_def new_balance_def Let_def miner_of_def
      server_error_def)
  from shutdown_report [OF u] show ?thesis
    by (simp add: miner_of_def)
qed

text \<open>
  The claim as written asks for a report that tells a failed final push from a
  settlement. A final push answered with an HTTP error status, from 13 earned and 5
  paid, prints exactly what a successful settlement from 10 earned and 2 paid with 3
  pending prints: \<open>Miner 1 stopped. Total paid: 5\<close>, and nothing else.
\<close>

theorem shutdown_report_counterexample:
  "printed (snd (snd (shutdown (60000 / 151) (\<lambda>k. Returns server_error) (miner_of 13 5) world0)))
     = [Miner_stopped 1 5]
   \<and> printed (snd (snd (shutdown (60000 / 151) (\<lambda>k. Returns accepted) (miner_of 10 2) world0)))
     = [Miner_stopped 1 5]
   \<and> total_earned (data (session (fst (snd (shutdown (60000 / 151) (\<lambda>k. Returns server_error) (miner_of 13 5) world0))))) = 13"
  by (simp add: shutdown_def update_server_balance_def update_balance_def handle_errors_def
      upt_rec calculate_production_def BASE_HASHRATE_def new_balance_def Let_def miner_of_def
      world0_def accepted_def server_error_def emit_def save_def save_steps_def printed_def)

section \<open>Saving and loading\<close>

text \<open>
  C2 (amended). \<open>save\<close> writes the session file in place, in two steps: opening
  it for writing empties it, then the document is written. A save that runs to its end
  leaves the complete new state in the file, and a save interrupted before its first
  step leaves the file as it was; a save interrupted between the two steps leaves an
  empty file.
\<close>

theorem save_in_place:
  "save s w = save_upto 2 s w
   \<and> files (save_upto 0 s w) = files w
   \<and> files (save_upto 1 s w) = (files w)(file_name s \<mapsto> Not_json [])
   \<and> (2 \<le> k \<longrightarrow> files (save_upto k s w) = (files w)(file_name s \<mapsto> Json_doc (data s)))"
proof -
  have "take k (save_steps s) = save_steps s" if "2 \<le> k"
    using that by (simp add: save_steps_def)
  then show ?thesis
    by (auto simp: save_upto_def save_def save_steps_def emit_def)
qed

theorem save_in_place_witness:
  "files (save_upto 2 (session (miner_of 13 5)) world0) ''0xA_mining.dat''
     = Some (Json_doc (data (session (miner_of 13 5))))"
  using save_in_place [of "session (miner_of 13 5)" world0 2]
  by (simp add: miner_of_def)

text \<open>
  The claim as written asks that every interruption leaves the old or the new state.
  After the first step of a save over an older document the file is empty: it holds
  neither the old state nor the new one.
\<close>

theorem save_interrupted_counterexample:
  "files (save_upto 1 (session (miner_of 13 5)) (world_of (Json_doc (data (session (miner_of 10 2))))))
      ''0xA_mining.dat'' = Some (Not_json [])
   \<and> files (save_upto 1 (session (miner_of 13 5)) (world_of (Json_doc (data (session (miner_of 10 2))))))
      ''0xA_mining.dat''
     \<noteq> files (world_of (Json_doc (data (session (miner_of 10 2))))) ''0xA_mining.dat''
   \<and> files (save_upto 1 (session (miner_of 13 5)) (world_of (Json_doc (data (session (miner_of 10 2))))))
      ''0xA_mining.dat''
     \<noteq> files (save (session (miner_of 13 5)) (world_of (Json_doc (data (session (miner_of 10 2))))))
      ''0xA_mining.dat''"
  by (simp add: save_upto_def save_def save_steps_def miner_of_def world_of_def emit_def)




section \<open>Two defects\<close>

text \<open>
  C1. The claim holds that the committed total equals the production since the start
  time. The code adds the whole production since the start time at every successful
  tick. A miner that started at instant 0 with nothing earned, after successful ticks
  at 100 and at 200 seconds, has 2.265 committed, where the production over 200
  seconds is 1.51: the production of the first 100 seconds, 0.755, is counted twice.
\<close>

theorem second_tick_counts_twice:
  "total_earned (data (session (fst (snd (run_mining_cycle
      [Tick 100 (\<lambda>k. Returns accepted) 100, Tick 200 (\<lambda>k. Returns accepted) 200]
      (miner_of 0 0) world0))))) = 2.265
   \<and> total_earned (data (session (fst (snd (run_mining_cycle
      [Tick 100 (\<lambda>k. Returns accepted) 100] (miner_of 0 0) world0))))) = 0.755
   \<and> calculate_production 200 (data (session (miner_of 0 0))) = Inr 1.51"
  by (simp add: update_server_balance_def update_balance_def handle_errors_def
      upt_rec calculate_production_def BASE_HASHRATE_def new_balance_def Let_def miner_of_def
      world0_def accepted_def emit_def save_def save_steps_def display_stats_def)

text \<open>
  C7. The claim holds that a wallet whose registration fails is excluded and no other
  wallet is affected. The loop removes the failed miner from the list it is iterating
  over, so the iterator skips the miner that follows. With wallets \<open>0xA\<close>, refused,
  and \<open>0xB\<close>, which the service would accept, the only request sent is the check
  of \<open>0xA\<close>, and \<open>0xB\<close> stays in the list without having been initialised.
\<close>

theorem failed_registration_skips_next:
  "start_operation [''0xA'', ''0xB''] first_refused (\<lambda>k. 1000) world0 =
     (Inr (),
      [\<lparr>miner_id = 2, miner_wallet = ''0xB'', session = MiningSession ''0xB'',
        active = False, miner_start_time = None\<rparr>],
      \<lparr>files = Map.empty,
       trace = [Print (Initializing 2), Get_check_registration ''0xA'',
                Print (Wallet_not_registered 1)]\<rparr>)"
  by (simp add: start_operation_def CryptoMiner_def exists_file_def MiningSession_def world0_def
      initialize_miner_def check_registration_def handle_errors_def upt_rec first_refused_def
      not_registered_def accepted_def emit_def)

end
